theory Spec2Isabelle
  imports Complex_Main "HOL-Library.Word"
begin

section \<open>PIN vault of the desktop client: \<^verbatim>\<open>src/main/modules/system/PinService.ts\<close>\<close>

text \<open>
  The module holds two classes. \<^verbatim>\<open>LockoutManager\<close> is a small state machine over
  a \<^verbatim>\<open>LockoutState\<close>; \<^verbatim>\<open>PinService\<close> owns one \<^verbatim>\<open>LockoutManager\<close>, a verified
  flag and a cached key, and talks to Electron's \<^verbatim>\<open>safeStorage\<close> and to Node's
  \<^verbatim>\<open>crypto\<close>.

  Conventions of the embedding:
  \<^item> Timestamps and counters are JavaScript numbers holding integers
    (\<^verbatim>\<open>Date.now()\<close> is an integer number of milliseconds), modelled as \<open>int\<close>.
  \<^item> Every \<^verbatim>\<open>Date.now()\<close> of the source is an explicit argument.
  \<^item> A mutating method takes the state and returns the new one.
  \<^item> A \<^verbatim>\<open>Buffer\<close> is a list of bytes. Overwriting a buffer with zeros
    (\<^verbatim>\<open>fill(0)\<close>) after its last use changes no value the program computes and
    is not modelled.
  \<^item> The primitives of Electron and Node are fields of a record \<open>platform\<close>;
    a primitive that may throw returns \<open>None\<close> when it does.
\<close>

subsection \<open>Configuration\<close>

datatype digest = SHA512 | SHA256

definition salt_length :: nat where "salt_length = 32"
definition hash_iterations :: nat where "hash_iterations = 350000"
definition hash_keyLength :: nat where "hash_keyLength = 64"
definition hash_digest :: digest where "hash_digest = SHA512"
definition encryption_keyLength :: nat where "encryption_keyLength = 32"
definition encryption_ivLength :: nat where "encryption_ivLength = 16"
definition encryption_authTagLength :: nat where "encryption_authTagLength = 16"
definition encryption_iterations :: nat where "encryption_iterations = 50000"
definition maxAttempts :: int where "maxAttempts = 5"
definition baseLockoutMs :: int where "baseLockoutMs = 5 * 60 * 1000"
definition attemptResetMs :: int where "attemptResetMs = 15 * 60 * 1000"
definition maxLockoutMultiplier :: int where "maxLockoutMultiplier = 12"

subsection \<open>Types\<close>

type_synonym Buffer = "8 word list"

record LockoutState =
  count :: int
  lastAttempt :: int
  lockedUntil :: "int option"   \<comment> \<open>\<^verbatim>\<open>number | null\<close>\<close>
  lockoutCount :: int

text \<open>
  What \<^verbatim>\<open>JSON.parse\<close> hands over is of type \<^verbatim>\<open>unknown\<close>. A field that the code
  tests with \<^verbatim>\<open>typeof\<close> is an option here, \<open>None\<close> standing for any value that
  fails the test; a field the code does not test has its declared type.
\<close>

record LockoutJson =
  j_count :: "int option"
  j_lastAttempt :: "int option"
  j_lockedUntil :: "int option"   \<comment> \<open>declared \<^verbatim>\<open>number | null\<close>, never tested\<close>
  j_lockoutCount :: "int option"

record PinJson =
  j_hash :: "string option"
  j_salt :: "string option"
  j_encryptionSalt :: "string option"   \<comment> \<open>declared \<^verbatim>\<open>encryptionSalt?: string\<close>\<close>
  j_lockout :: "LockoutJson option"     \<comment> \<open>\<open>None\<close>: absent, null or not an object\<close>

datatype parsed = NotObject | Object PinJson

text \<open>The text given to and returned by the secret store, by what \<^verbatim>\<open>JSON.parse\<close> makes of it.\<close>

datatype json_text = Malformed | Text parsed

record PinData =
  hash :: string
  salt :: string
  encryptionSalt :: "string option"
  lockout :: "LockoutJson option"

record FailureResult =
  f_locked :: bool
  f_remainingAttempts :: int
  f_lockoutSeconds :: "int option"

record VerifyPinResult =
  success :: bool
  locked :: bool
  remainingAttempts :: int
  lockoutSeconds :: "int option"
  updatedEncryptedData :: "string option"

datatype 'a PinOperationResult = Ok 'a | Err string

datatype error = RangeError

subsection \<open>JavaScript operators used by the module\<close>

text \<open>\<^verbatim>\<open>Math.ceil(ms / 1000)\<close> on an integer number of milliseconds.\<close>

definition ceilSeconds :: "int \<Rightarrow> int" where
  "ceilSeconds ms = - ((- ms) div 1000)"

text \<open>\<^verbatim>\<open>x && ...\<close> on a number: zero is falsy; on \<^verbatim>\<open>number | null\<close>: null is falsy too.\<close>

definition truthy :: "int \<Rightarrow> bool" where
  "truthy n = (n \<noteq> 0)"

subsection \<open>LockoutManager\<close>

definition createDefaultState :: LockoutState where
  "createDefaultState = \<lparr>count = 0, lastAttempt = 0, lockedUntil = None, lockoutCount = 0\<rparr>"

definition calculateLockoutDuration :: "LockoutState \<Rightarrow> int" where
  "calculateLockoutDuration s =
     (let multiplier = min (lockoutCount s + 1) maxLockoutMultiplier
      in baseLockoutMs * multiplier)"

text \<open>The type guard \<^verbatim>\<open>lockout is LockoutState\<close>: the narrowed value when the three tests pass.\<close>

definition isValidLockoutState :: "LockoutJson \<Rightarrow> LockoutState option" where
  "isValidLockoutState l =
     (case (j_count l, j_lastAttempt l, j_lockoutCount l) of
        (Some c, Some a, Some k) \<Rightarrow>
          Some \<lparr>count = c, lastAttempt = a, lockedUntil = j_lockedUntil l, lockoutCount = k\<rparr>
      | _ \<Rightarrow> None)"

definition loadFromPinData :: "int \<Rightarrow> LockoutJson option \<Rightarrow> LockoutState" where
  "loadFromPinData now lo =
     (case lo of
        None \<Rightarrow> createDefaultState
      | Some j \<Rightarrow>
         (case isValidLockoutState j of
            None \<Rightarrow> createDefaultState
          | Some l \<Rightarrow>
              if (case lockedUntil l of None \<Rightarrow> False | Some u \<Rightarrow> truthy u \<and> now \<ge> u)
              then \<lparr>count = 0, lastAttempt = 0, lockedUntil = None, lockoutCount = lockoutCount l\<rparr>
              else if truthy (lastAttempt l) \<and> now - lastAttempt l > attemptResetMs
              then createDefaultState
              else l))"

definition checkAndUpdateExpiry :: "int \<Rightarrow> LockoutState \<Rightarrow> LockoutState" where
  "checkAndUpdateExpiry now s =
     (let s1 = (if (case lockedUntil s of None \<Rightarrow> False | Some u \<Rightarrow> truthy u \<and> now \<ge> u)
                then s\<lparr>lockedUntil := None, count := 0\<rparr> else s)
      in if truthy (lastAttempt s1) \<and> now - lastAttempt s1 > attemptResetMs
         then createDefaultState else s1)"

text \<open>\<open>Some seconds\<close> is \<^verbatim>\<open>{locked: true, seconds}\<close>, \<open>None\<close> is \<^verbatim>\<open>{locked: false}\<close>.\<close>

definition isLocked :: "int \<Rightarrow> LockoutState \<Rightarrow> int option" where
  "isLocked now s =
     (case lockedUntil s of
        None \<Rightarrow> None
      | Some u \<Rightarrow> if truthy u \<and> now < u then Some (ceilSeconds (u - now)) else None)"

definition recordFailure :: "int \<Rightarrow> LockoutState \<Rightarrow> FailureResult \<times> LockoutState" where
  "recordFailure now s =
     (let s1 = s\<lparr>count := count s + 1\<rparr>;
          s2 = s1\<lparr>lastAttempt := now\<rparr>;
          remaining = maxAttempts - count s2
      in if count s2 \<ge> maxAttempts
         then
           (let s3 = s2\<lparr>lockoutCount := min (lockoutCount s2 + 1) maxLockoutMultiplier\<rparr>;
                lockoutDuration = calculateLockoutDuration s3;
                s4 = s3\<lparr>lockedUntil := Some (now + lockoutDuration)\<rparr>
            in (\<lparr>f_locked = True, f_remainingAttempts = 0,
                 f_lockoutSeconds = Some (ceilSeconds lockoutDuration)\<rparr>, s4))
         else (\<lparr>f_locked = False, f_remainingAttempts = remaining, f_lockoutSeconds = None\<rparr>, s2))"

definition recordSuccess :: "LockoutState \<Rightarrow> LockoutState" where
  "recordSuccess s = createDefaultState"

definition applyMaxLockout :: "int \<Rightarrow> LockoutState \<Rightarrow> int \<times> LockoutState" where
  "applyMaxLockout now s =
     (let lockoutDuration = baseLockoutMs * maxLockoutMultiplier
      in (ceilSeconds lockoutDuration,
          \<lparr>count = maxAttempts, lastAttempt = now,
           lockedUntil = Some (now + lockoutDuration),
           lockoutCount = maxLockoutMultiplier\<rparr>))"

definition reset :: "LockoutState \<Rightarrow> LockoutState" where
  "reset s = createDefaultState"

definition serialize :: "LockoutState \<Rightarrow> LockoutState" where
  "serialize s = s"

subsection \<open>Primitives of Electron and Node\<close>

text \<open>
  \<open>encryptString\<close>, \<open>decryptString\<close> and \<open>isEncryptionAvailable\<close> are
  \<^verbatim>\<open>safeStorage\<close>; \<open>toBase64\<close> is \<^verbatim>\<open>buf.toString('base64')\<close> and \<open>fromBase64\<close> is
  \<^verbatim>\<open>Buffer.from(s, 'base64')\<close>, which never throws on a string; \<open>utf8Encode\<close> and
  \<open>utf8Decode\<close> are the \<^verbatim>\<open>'utf8'\<close> conversions; \<open>pbkdf2Sync\<close> takes password,
  salt, iterations, key length and digest; \<open>gcmEncrypt key iv plaintext\<close> is
  \<^verbatim>\<open>createCipheriv('aes-256-gcm', key, iv)\<close> followed by \<^verbatim>\<open>update\<close>, \<^verbatim>\<open>final\<close> and
  \<^verbatim>\<open>getAuthTag\<close>, giving ciphertext and tag; \<open>gcmDecrypt key iv tag ciphertext\<close>
  is \<^verbatim>\<open>createDecipheriv\<close>, \<^verbatim>\<open>setAuthTag\<close>, \<^verbatim>\<open>update\<close>, \<^verbatim>\<open>final\<close>.
  The result of each \<^verbatim>\<open>randomBytes\<close> call is an argument of the function that makes
  the call, \<open>None\<close> when the call throws.
\<close>

record platform =
  isEncryptionAvailable :: bool
  encryptString :: "json_text \<Rightarrow> Buffer option"
  decryptString :: "Buffer \<Rightarrow> json_text option"
  toBase64 :: "Buffer \<Rightarrow> string"
  fromBase64 :: "string \<Rightarrow> Buffer"
  utf8Encode :: "string \<Rightarrow> Buffer"
  utf8Decode :: "Buffer \<Rightarrow> string"
  pbkdf2Sync :: "string \<Rightarrow> Buffer \<Rightarrow> nat \<Rightarrow> nat \<Rightarrow> digest \<Rightarrow> Buffer"
  gcmEncrypt :: "Buffer \<Rightarrow> Buffer \<Rightarrow> Buffer \<Rightarrow> (Buffer \<times> Buffer) option"
  gcmDecrypt :: "Buffer \<Rightarrow> Buffer \<Rightarrow> Buffer \<Rightarrow> Buffer \<Rightarrow> Buffer option"

definition lockoutToJson :: "LockoutState \<Rightarrow> LockoutJson" where
  "lockoutToJson s =
     \<lparr>j_count = Some (count s), j_lastAttempt = Some (lastAttempt s),
      j_lockedUntil = lockedUntil s, j_lockoutCount = Some (lockoutCount s)\<rparr>"

definition JSON_stringify :: "PinData \<Rightarrow> json_text" where
  "JSON_stringify pd =
     Text (Object \<lparr>j_hash = Some (hash pd), j_salt = Some (salt pd),
                   j_encryptionSalt = encryptionSalt pd, j_lockout = lockout pd\<rparr>)"

definition JSON_parse :: "json_text \<Rightarrow> parsed option" where
  "JSON_parse t = (case t of Malformed \<Rightarrow> None | Text v \<Rightarrow> Some v)"

definition timingSafeEqual :: "Buffer \<Rightarrow> Buffer \<Rightarrow> error + bool" where
  "timingSafeEqual a b = (if length a \<noteq> length b then Inl RangeError else Inr (a = b))"

definition subarray :: "nat \<Rightarrow> nat \<Rightarrow> Buffer \<Rightarrow> Buffer" where
  "subarray start end xs = take (end - start) (drop start xs)"

subsection \<open>PinService\<close>

record PinService =
  isPinVerified :: bool
  derivedEncryptionKey :: "Buffer option"
  lockoutManager :: LockoutState

definition newPinService :: PinService where
  "newPinService =
     \<lparr>isPinVerified = False, derivedEncryptionKey = None, lockoutManager = createDefaultState\<rparr>"

definition validatePinFormat :: "string \<Rightarrow> bool" where
  "validatePinFormat pin = (length pin = 6 \<and> list_all (\<lambda>c. c \<in> set ''0123456789'') pin)"

text \<open>The type guard \<^verbatim>\<open>data is PinData\<close>, as for the lockout.\<close>

definition isValidPinData :: "parsed \<Rightarrow> PinData option" where
  "isValidPinData data =
     (case data of
        NotObject \<Rightarrow> None
      | Object d \<Rightarrow>
         (case (j_hash d, j_salt d) of
            (Some h, Some s) \<Rightarrow>
              if length h > 0 \<and> length s > 0
              then Some \<lparr>hash = h, salt = s, encryptionSalt = j_encryptionSalt d,
                         lockout = j_lockout d\<rparr>
              else None
          | _ \<Rightarrow> None))"

definition decryptPinData :: "platform \<Rightarrow> string \<Rightarrow> PinData PinOperationResult" where
  "decryptPinData P encryptedData =
     (if encryptedData = [] then Err ''Invalid encrypted data''
      else if \<not> isEncryptionAvailable P then Err ''SafeStorage not available''
      else
        (case decryptString P (fromBase64 P encryptedData) of
           None \<Rightarrow> Err ''Failed to decrypt PIN data''
         | Some decryptedJson \<Rightarrow>
            (case JSON_parse decryptedJson of
               None \<Rightarrow> Err ''Failed to decrypt PIN data''
             | Some pinData \<Rightarrow>
                (case isValidPinData pinData of
                   None \<Rightarrow> Err ''Invalid PIN data structure''
                 | Some pd \<Rightarrow> Ok pd))))"

definition encryptPinData :: "platform \<Rightarrow> PinData \<Rightarrow> string PinOperationResult" where
  "encryptPinData P pinData =
     (if \<not> isEncryptionAvailable P then Err ''SafeStorage not available''
      else
        (case encryptString P (JSON_stringify pinData) of
           None \<Rightarrow> Err ''Failed to encrypt PIN data''
         | Some encrypted \<Rightarrow> Ok (toBase64 P encrypted)))"

definition hashPin :: "platform \<Rightarrow> string \<Rightarrow> Buffer \<Rightarrow> Buffer" where
  "hashPin P pin slt = pbkdf2Sync P pin slt hash_iterations hash_keyLength hash_digest"

definition deriveEncryptionKey :: "platform \<Rightarrow> string \<Rightarrow> Buffer \<Rightarrow> Buffer" where
  "deriveEncryptionKey P pin slt =
     pbkdf2Sync P pin slt encryption_iterations encryption_keyLength SHA256"

definition clearDerivedKey :: "PinService \<Rightarrow> PinService" where
  "clearDerivedKey st =
     (case derivedEncryptionKey st of
        Some k \<Rightarrow> st\<lparr>derivedEncryptionKey := None\<rparr>
      | None \<Rightarrow> st)"

definition setDerivedKey :: "platform \<Rightarrow> string \<Rightarrow> Buffer \<Rightarrow> PinService \<Rightarrow> PinService" where
  "setDerivedKey P pin slt st =
     (clearDerivedKey st)\<lparr>derivedEncryptionKey := Some (deriveEncryptionKey P pin slt)\<rparr>"

definition updateLockoutInPinData :: "PinService \<Rightarrow> PinData \<Rightarrow> PinData" where
  "updateLockoutInPinData st pinData =
     pinData\<lparr>lockout := Some (lockoutToJson (serialize (lockoutManager st)))\<rparr>"

definition initialize :: "PinService \<Rightarrow> PinService" where
  "initialize st =
     (let st1 = st\<lparr>isPinVerified := False\<rparr>;
          st2 = clearDerivedKey st1
      in st2\<lparr>lockoutManager := reset (lockoutManager st2)\<rparr>)"

subsubsection \<open>PIN creation\<close>

text \<open>\<open>r1\<close> and \<open>r2\<close> are the results of the two \<^verbatim>\<open>randomBytes(32)\<close> calls.\<close>

definition createPinHashSafe ::
  "platform \<Rightarrow> PinService \<Rightarrow> string \<Rightarrow> Buffer option \<Rightarrow> Buffer option
     \<Rightarrow> string PinOperationResult \<times> PinService" where
  "createPinHashSafe P st pin r1 r2 =
     (if \<not> isEncryptionAvailable P then (Err ''SafeStorage not available'', st)
      else if \<not> validatePinFormat pin then (Err ''Invalid PIN format'', st)
      else
        (case r1 of
           None \<Rightarrow> (Err ''Failed to create PIN hash'', st)
         | Some slt \<Rightarrow>
            (case r2 of
               None \<Rightarrow> (Err ''Failed to create PIN hash'', st)
             | Some encSalt \<Rightarrow>
                (let h = hashPin P pin slt;
                     pinData = \<lparr>hash = toBase64 P h, salt = toBase64 P slt,
                                encryptionSalt = Some (toBase64 P encSalt),
                                lockout = Some (lockoutToJson (serialize (lockoutManager st)))\<rparr>;
                     st1 = st\<lparr>lockoutManager := reset (lockoutManager st)\<rparr>
                 in (encryptPinData P pinData, st1)))))"

definition createPinHash ::
  "platform \<Rightarrow> PinService \<Rightarrow> string \<Rightarrow> Buffer option \<Rightarrow> Buffer option
     \<Rightarrow> string option \<times> PinService" where
  "createPinHash P st pin r1 r2 =
     (case createPinHashSafe P st pin r1 r2 of
        (Ok v, st1) \<Rightarrow> (Some v, st1)
      | (Err e, st1) \<Rightarrow> (None, st1))"

subsubsection \<open>PIN verification\<close>

definition handleSuccessfulVerification ::
  "platform \<Rightarrow> PinService \<Rightarrow> string \<Rightarrow> PinData \<Rightarrow> VerifyPinResult \<times> PinService" where
  "handleSuccessfulVerification P st pin pinData =
     (let st1 = st\<lparr>lockoutManager := recordSuccess (lockoutManager st)\<rparr>;
          st2 = st1\<lparr>isPinVerified := True\<rparr>;
          st3 = (case encryptionSalt pinData of
                   None \<Rightarrow> st2
                 | Some es \<Rightarrow>
                     if es \<noteq> [] then setDerivedKey P pin (fromBase64 P es) st2 else st2);
          updatedPinData = updateLockoutInPinData st3 pinData;
          encryptResult = encryptPinData P updatedPinData
      in (\<lparr>success = True, locked = False, remainingAttempts = maxAttempts,
           lockoutSeconds = None,
           updatedEncryptedData = (case encryptResult of Ok v \<Rightarrow> Some v | Err e \<Rightarrow> None)\<rparr>,
          st3))"

definition handleFailedVerification ::
  "platform \<Rightarrow> PinService \<Rightarrow> PinData \<Rightarrow> int \<Rightarrow> VerifyPinResult \<times> PinService" where
  "handleFailedVerification P st pinData now =
     (let (failureResult, lm) = recordFailure now (lockoutManager st);
          st1 = st\<lparr>lockoutManager := lm\<rparr>;
          updatedPinData = updateLockoutInPinData st1 pinData;
          encryptResult = encryptPinData P updatedPinData
      in (\<lparr>success = False, locked = f_locked failureResult,
           remainingAttempts = f_remainingAttempts failureResult,
           lockoutSeconds = f_lockoutSeconds failureResult,
           updatedEncryptedData = (case encryptResult of Ok v \<Rightarrow> Some v | Err e \<Rightarrow> None)\<rparr>,
          st1))"

text \<open>\<^verbatim>\<open>timingSafeEqual\<close> throws on buffers of different lengths, and nothing catches it.\<close>

definition performVerification ::
  "platform \<Rightarrow> PinService \<Rightarrow> string \<Rightarrow> PinData \<Rightarrow> int
     \<Rightarrow> (error + VerifyPinResult) \<times> PinService" where
  "performVerification P st enteredPin pinData now =
     (let slt = fromBase64 P (salt pinData);
          storedHash = fromBase64 P (hash pinData);
          enteredHash = hashPin P enteredPin slt
      in case timingSafeEqual storedHash enteredHash of
           Inl e \<Rightarrow> (Inl e, st)
         | Inr isCorrect \<Rightarrow>
             if isCorrect
             then (case handleSuccessfulVerification P st enteredPin pinData of
                     (r, st1) \<Rightarrow> (Inr r, st1))
             else (case handleFailedVerification P st pinData now of
                     (r, st1) \<Rightarrow> (Inr r, st1)))"

text \<open>
  \<open>now\<close> is the \<^verbatim>\<open>Date.now()\<close> at the head of \<^verbatim>\<open>verifyPin\<close>, \<open>nowLoad\<close> the one
  that \<^verbatim>\<open>loadFromPinData\<close> reads for itself a little later.
\<close>

definition verifyPin ::
  "platform \<Rightarrow> PinService \<Rightarrow> string \<Rightarrow> string \<Rightarrow> int \<Rightarrow> int
     \<Rightarrow> (error + VerifyPinResult) \<times> PinService" where
  "verifyPin P st enteredPin encryptedData now nowLoad =
     (if \<not> validatePinFormat enteredPin
      then (Inr \<lparr>success = False, locked = False, remainingAttempts = maxAttempts,
                 lockoutSeconds = None, updatedEncryptedData = None\<rparr>, st)
      else
        (case decryptPinData P encryptedData of
           Err e \<Rightarrow>
             (let (secs, lm) = applyMaxLockout now (lockoutManager st)
              in (Inr \<lparr>success = False, locked = True, remainingAttempts = 0,
                       lockoutSeconds = Some secs, updatedEncryptedData = None\<rparr>,
                  st\<lparr>lockoutManager := lm\<rparr>))
         | Ok pinData \<Rightarrow>
             (let st1 = st\<lparr>lockoutManager := loadFromPinData nowLoad (lockout pinData)\<rparr>;
                  st2 = st1\<lparr>lockoutManager := checkAndUpdateExpiry now (lockoutManager st1)\<rparr>
              in case isLocked now (lockoutManager st2) of
                   Some secs \<Rightarrow>
                     (Inr \<lparr>success = False, locked = True, remainingAttempts = 0,
                           lockoutSeconds = Some secs, updatedEncryptedData = None\<rparr>, st2)
                 | None \<Rightarrow> performVerification P st2 enteredPin pinData now)))"

subsubsection \<open>Encryption and decryption of caller data\<close>

text \<open>\<open>r\<close> is the result of \<^verbatim>\<open>randomBytes(16)\<close>.\<close>

definition encryptWithKey :: "platform \<Rightarrow> string \<Rightarrow> Buffer \<Rightarrow> Buffer option \<Rightarrow> string option" where
  "encryptWithKey P data key r =
     (case r of
        None \<Rightarrow> None
      | Some iv \<Rightarrow>
         (case gcmEncrypt P key iv (utf8Encode P data) of
            None \<Rightarrow> None
          | Some (encrypted, authTag) \<Rightarrow> Some (toBase64 P (iv @ authTag @ encrypted))))"

definition decryptWithKey :: "platform \<Rightarrow> string \<Rightarrow> Buffer \<Rightarrow> string option" where
  "decryptWithKey P encryptedData key =
     (let combined = fromBase64 P encryptedData;
          iv = subarray 0 encryption_ivLength combined;
          authTag = subarray encryption_ivLength
                      (encryption_ivLength + encryption_authTagLength) combined;
          ciphertext = drop (encryption_ivLength + encryption_authTagLength) combined
      in case gcmDecrypt P key iv authTag ciphertext of
           None \<Rightarrow> None
         | Some decrypted \<Rightarrow> Some (utf8Decode P decrypted))"

definition encryptWithPin ::
  "platform \<Rightarrow> string \<Rightarrow> string \<Rightarrow> string \<Rightarrow> Buffer option \<Rightarrow> string option" where
  "encryptWithPin P data pin encSalt r =
     (let slt = fromBase64 P encSalt;
          key = deriveEncryptionKey P pin slt
      in encryptWithKey P data key r)"

definition decryptWithPin :: "platform \<Rightarrow> string \<Rightarrow> string \<Rightarrow> string \<Rightarrow> string option" where
  "decryptWithPin P encryptedData pin encSalt =
     (let slt = fromBase64 P encSalt;
          key = deriveEncryptionKey P pin slt
      in decryptWithKey P encryptedData key)"

definition encryptWithVerifiedKey ::
  "platform \<Rightarrow> PinService \<Rightarrow> string \<Rightarrow> Buffer option \<Rightarrow> string option" where
  "encryptWithVerifiedKey P st data r =
     (case derivedEncryptionKey st of
        None \<Rightarrow> None
      | Some key \<Rightarrow> encryptWithKey P data key r)"

definition decryptWithVerifiedKey :: "platform \<Rightarrow> PinService \<Rightarrow> string \<Rightarrow> string option" where
  "decryptWithVerifiedKey P st encryptedData =
     (case derivedEncryptionKey st of
        None \<Rightarrow> None
      | Some key \<Rightarrow> decryptWithKey P encryptedData key)"

subsubsection \<open>Verification state\<close>

definition isPinCurrentlyVerified :: "PinService \<Rightarrow> bool" where
  "isPinCurrentlyVerified st = isPinVerified st"

definition hasEncryptionKey :: "PinService \<Rightarrow> bool" where
  "hasEncryptionKey st = (derivedEncryptionKey st \<noteq> None)"

definition markVerified :: "PinService \<Rightarrow> PinService" where
  "markVerified st = st\<lparr>isPinVerified := True\<rparr>"

definition clearVerification :: "PinService \<Rightarrow> PinService" where
  "clearVerification st = clearDerivedKey (st\<lparr>isPinVerified := False\<rparr>)"

definition resetAttempts :: "PinService \<Rightarrow> PinService" where
  "resetAttempts st = st\<lparr>lockoutManager := reset (lockoutManager st)\<rparr>"

subsection \<open>Callers\<close>

text \<open>
  A caller that issues a list of \<^verbatim>\<open>verifyPin\<close> calls on one service, each with its own
  entered PIN, record and clock readings.
\<close>

fun verifyPinCalls ::
  "platform \<Rightarrow> PinService \<Rightarrow> (string \<times> string \<times> int \<times> int) list
     \<Rightarrow> (error + VerifyPinResult) list \<times> PinService" where
  "verifyPinCalls P st [] = ([], st)"
| "verifyPinCalls P st ((pin, blob, now, nowLoad) # cs) =
     (case verifyPin P st pin blob now nowLoad of
        (r, st1) \<Rightarrow> (case verifyPinCalls P st1 cs of (rs, st2) \<Rightarrow> (r # rs, st2)))"

text \<open>
  A caller that keeps the contract of \<^verbatim>\<open>verifyPin\<close>: it stores every
  \<^verbatim>\<open>updatedEncryptedData\<close> it is handed and passes the stored record to the next call.
\<close>

fun attemptSequence ::
  "platform \<Rightarrow> PinService \<Rightarrow> string \<Rightarrow> (string \<times> int) list
     \<Rightarrow> (error + VerifyPinResult) list" where
  "attemptSequence P st blob [] = []"
| "attemptSequence P st blob ((pin, now) # rest) =
     (case verifyPin P st pin blob now now of
        (Inl e, st1) \<Rightarrow> Inl e # attemptSequence P st1 blob rest
      | (Inr r, st1) \<Rightarrow>
          Inr r # attemptSequence P st1
                    (case updatedEncryptedData r of Some b \<Rightarrow> b | None \<Rightarrow> blob) rest)"

subsection \<open>A small platform to run the model on\<close>

text \<open>
  Concrete stand-ins for the primitives, so that the functions above can be run on
  concrete inputs. The text encodings map a byte to the character of the same code. The
  key derivation pads digest tag, password and salt to the requested length. The cipher
  shifts every byte by the first bytes of key and nonce and refuses a wrong tag. The
  secret store is a finite table of ciphertexts and the texts they decrypt to;
  encrypting a text that is not in the table throws, as does decrypting an unknown
  ciphertext.
\<close>

definition demoToBase64 :: "Buffer \<Rightarrow> string" where
  "demoToBase64 b = map (\<lambda>w. char_of (unat w)) b"

definition demoFromBase64 :: "string \<Rightarrow> Buffer" where
  "demoFromBase64 s = map of_char s"

definition demoPbkdf2 :: "string \<Rightarrow> Buffer \<Rightarrow> nat \<Rightarrow> nat \<Rightarrow> digest \<Rightarrow> Buffer" where
  "demoPbkdf2 pw slt iters keylen dg =
     take keylen ((case dg of SHA512 \<Rightarrow> 1 | SHA256 \<Rightarrow> 2) # map of_char pw @ slt
                  @ replicate keylen 0)"

definition demoGcmEncrypt :: "Buffer \<Rightarrow> Buffer \<Rightarrow> Buffer \<Rightarrow> (Buffer \<times> Buffer) option" where
  "demoGcmEncrypt key iv pt =
     (if length key = 32 \<and> iv \<noteq> []
      then Some (map (\<lambda>b. b + hd key + hd iv) pt,
                 replicate 16 (hd key + of_nat (length pt)))
      else None)"

definition demoGcmDecrypt :: "Buffer \<Rightarrow> Buffer \<Rightarrow> Buffer \<Rightarrow> Buffer \<Rightarrow> Buffer option" where
  "demoGcmDecrypt key iv tag ct =
     (if length key = 32 \<and> iv \<noteq> [] \<and> tag = replicate 16 (hd key + of_nat (length ct))
      then Some (map (\<lambda>b. b - hd iv - hd key) ct)
      else None)"

definition demoPlatform :: "(Buffer \<times> json_text) list \<Rightarrow> platform" where
  "demoPlatform book =
     \<lparr>isEncryptionAvailable = True,
      encryptString = (\<lambda>t. map_of (map (\<lambda>(b, t). (t, b)) book) t),
      decryptString = map_of book,
      toBase64 = demoToBase64, fromBase64 = demoFromBase64,
      utf8Encode = map of_char, utf8Decode = map (\<lambda>w. char_of (unat w)),
      pbkdf2Sync = demoPbkdf2, gcmEncrypt = demoGcmEncrypt, gcmDecrypt = demoGcmDecrypt\<rparr>"

definition demoSalt :: Buffer where "demoSalt = replicate 32 7"

definition demoEncSalt :: Buffer where "demoEncSalt = replicate 32 9"

text \<open>The record that \<^verbatim>\<open>createPinHash\<close> assembles for a PIN on this platform, with a given lockout.\<close>

definition demoPinData :: "string \<Rightarrow> LockoutState \<Rightarrow> PinData" where
  "demoPinData pin s =
     \<lparr>hash = demoToBase64 (demoPbkdf2 pin demoSalt hash_iterations hash_keyLength hash_digest),
      salt = demoToBase64 demoSalt, encryptionSalt = Some (demoToBase64 demoEncSalt),
      lockout = Some (lockoutToJson s)\<rparr>"

definition failed :: "int \<Rightarrow> int \<Rightarrow> LockoutState" where
  "failed n t = \<lparr>count = n, lastAttempt = t, lockedUntil = None, lockoutCount = 0\<rparr>"

text \<open>The records of a run of five wrong attempts, one second apart, on a fresh record.\<close>

definition bookFive :: "(Buffer \<times> json_text) list" where
  "bookFive =
    [([10], JSON_stringify (demoPinData ''123456'' createDefaultState)),
     ([11], JSON_stringify (demoPinData ''123456'' (failed 1 1000000))),
     ([12], JSON_stringify (demoPinData ''123456'' (failed 2 1001000))),
     ([13], JSON_stringify (demoPinData ''123456'' (failed 3 1002000))),
     ([14], JSON_stringify (demoPinData ''123456'' (failed 4 1003000))),
     ([15], JSON_stringify (demoPinData ''123456''
              \<lparr>count = 5, lastAttempt = 1004000, lockedUntil = Some 1604000,
               lockoutCount = 1\<rparr>))]"

text \<open>
  The state that the third lockout in a row leaves: locked for twenty minutes from the
  failed attempt at \<open>1000000\<close>.
\<close>

definition thirdLockout :: LockoutState where
  "thirdLockout =
     \<lparr>count = 5, lastAttempt = 1000000, lockedUntil = Some 2200000, lockoutCount = 3\<rparr>"

definition bookLocked :: "(Buffer \<times> json_text) list" where
  "bookLocked =
    [([20], JSON_stringify (demoPinData ''123456'' thirdLockout)),
     ([21], JSON_stringify (demoPinData ''123456'' createDefaultState))]"

text \<open>The state that \<^verbatim>\<open>applyMaxLockout\<close> leaves at time \<open>1000000\<close>.\<close>

definition maxLockout :: LockoutState where
  "maxLockout =
     \<lparr>count = 5, lastAttempt = 1000000, lockedUntil = Some 4600000, lockoutCount = 12\<rparr>"

definition bookCreate :: "(Buffer \<times> json_text) list" where
  "bookCreate = [([30], JSON_stringify (demoPinData ''123456'' maxLockout))]"

text \<open>A record written without \<^verbatim>\<open>encryptionSalt\<close>, which the type \<^verbatim>\<open>PinData\<close> allows.\<close>

definition legacyPinData :: PinData where
  "legacyPinData = (demoPinData ''123456'' createDefaultState)\<lparr>encryptionSalt := None\<rparr>"

definition bookLegacy :: "(Buffer \<times> json_text) list" where
  "bookLegacy = [([40], JSON_stringify legacyPinData)]"

text \<open>
  Node's \<^verbatim>\<open>'utf8'\<close> conversion of a string to bytes writes U+FFFD (the bytes EF BF BD)
  for a surrogate code unit that has no partner. A string is held here by its bytes, a
  lone surrogate by the three bytes ED A0..BF 80..BF of its generalised UTF-8 form, which
  no well-formed string contains. The platform below is the one above with this
  conversion for \<open>utf8Encode\<close>.
\<close>

fun replaceLoneSurrogates :: "Buffer \<Rightarrow> Buffer" where
  "replaceLoneSurrogates (a # b # c # rest) =
     (if a = 0xED \<and> 0xA0 \<le> b \<and> b \<le> 0xBF
      then 0xEF # 0xBF # 0xBD # replaceLoneSurrogates rest
      else a # replaceLoneSurrogates (b # c # rest))"
| "replaceLoneSurrogates bs = bs"

definition nodeTextPlatform :: platform where
  "nodeTextPlatform =
     (demoPlatform [])\<lparr>utf8Encode := (\<lambda>s. replaceLoneSurrogates (map of_char s))\<rparr>"

section \<open>Properties\<close>

lemmas CONFIG_defs =
  salt_length_def hash_iterations_def hash_keyLength_def hash_digest_def
  encryption_keyLength_def encryption_ivLength_def encryption_authTagLength_def
  encryption_iterations_def maxAttempts_def baseLockoutMs_def attemptResetMs_def
  maxLockoutMultiplier_def

subsection \<open>Arithmetic of the lockout\<close>

text \<open>The integer formula for \<^verbatim>\<open>Math.ceil(ms / 1000)\<close> is the ceiling of the real quotient.\<close>

lemma ceilSeconds_real: "ceilSeconds ms = \<lceil>real_of_int ms / 1000\<rceil>"
  unfolding ceilSeconds_def by (metis ceiling_divide_eq_div of_int_numeral)

lemma ceilSeconds_whole: "ceilSeconds (1000 * k) = k"
  by (simp add: ceilSeconds_def)

lemma applyMaxLockout_value:
  "applyMaxLockout now s =
     (3600, \<lparr>count = 5, lastAttempt = now, lockedUntil = Some (now + 3600000),
             lockoutCount = 12\<rparr>)"
  by (simp add: applyMaxLockout_def CONFIG_defs ceilSeconds_def)

subsection \<open>Reading the record\<close>

text \<open>The record is unreadable exactly in the five ways the code distinguishes.\<close>

lemma decryptPinData_Err_iff:
  "(\<exists>e. decryptPinData P blob = Err e) \<longleftrightarrow>
     blob = [] \<or> \<not> isEncryptionAvailable P
     \<or> decryptString P (fromBase64 P blob) = None
     \<or> decryptString P (fromBase64 P blob) = Some Malformed
     \<or> (\<exists>v. decryptString P (fromBase64 P blob) = Some (Text v) \<and> isValidPinData v = None)"
  by (auto simp: decryptPinData_def JSON_parse_def split: option.splits json_text.splits)

lemma isValid_lockoutToJson [simp]: "isValidLockoutState (lockoutToJson s) = Some s"
  by (simp add: isValidLockoutState_def lockoutToJson_def)

lemma lockoutToJson_inj [simp]: "lockoutToJson s = lockoutToJson t \<longleftrightarrow> s = t"
  by (cases s, cases t) (auto simp: lockoutToJson_def)

lemma JSON_stringify_inj [simp]: "JSON_stringify a = JSON_stringify b \<longleftrightarrow> a = b"
  by (cases a, cases b) (auto simp: JSON_stringify_def)

text \<open>What was stringified parses back, and passes the structure test when hash and salt are not empty.\<close>

lemma parse_stringify:
  "hash pd \<noteq> [] \<Longrightarrow> salt pd \<noteq> [] \<Longrightarrow>
   (case JSON_parse (JSON_stringify pd) of None \<Rightarrow> None | Some v \<Rightarrow> isValidPinData v) = Some pd"
  by (simp add: JSON_parse_def JSON_stringify_def isValidPinData_def)

subsection \<open>The demonstration platform\<close>

lemma unat_byte_lt: "unat (w :: 8 word) < 256"
  using unsigned_less [of w, where ?'a = nat] by simp

lemma byte_char_byte: "of_char (char_of (unat w)) = (w :: 8 word)"
proof -
  have "of_char (char_of (unat w)) = (of_nat (of_char (char_of (unat w))) :: 8 word)"
    by (simp only: of_nat_of_char)
  also have "\<dots> = of_nat (unat w mod 256)" by (simp only: of_char_of)
  also have "\<dots> = w" using unat_byte_lt [of w] by simp
  finally show ?thesis .
qed

lemma unat_of_char: "unat (of_char c :: 8 word) = of_char c"
proof -
  have "(of_char c :: nat) < 256"
    using of_char_mod_256 [of c, where ?'a = nat] by (metis mod_less_divisor zero_less_numeral)
  then have "unat (of_nat (of_char c) :: 8 word) = of_char c"
    by (simp add: unat_of_nat)
  then show ?thesis by (simp only: of_nat_of_char)
qed

lemma char_byte_char: "char_of (unat (of_char c :: 8 word)) = c"
  by (simp add: unat_of_char)

lemma demoFromBase64_ToBase64 [simp]: "demoFromBase64 (demoToBase64 b) = b"
  by (simp add: demoToBase64_def demoFromBase64_def o_def byte_char_byte)

lemma demoToBase64_Nil_iff [simp]: "demoToBase64 b = [] \<longleftrightarrow> b = []"
  by (simp add: demoToBase64_def)

lemma demoToBase64_inj [simp]: "demoToBase64 a = demoToBase64 b \<longleftrightarrow> a = b"
  by (metis demoFromBase64_ToBase64)

lemma length_demoPbkdf2 [simp]: "length (demoPbkdf2 pw slt iters keylen dg) = keylen"
  by (simp add: demoPbkdf2_def)

lemma demoPbkdf2_Nil_iff [simp]: "demoPbkdf2 pw slt iters keylen dg = [] \<longleftrightarrow> keylen = 0"
  by (metis length_demoPbkdf2 length_0_conv)

lemma demoPbkdf2_first_char:
  "demoPbkdf2 (c # pw) slt iters (Suc (Suc n)) dg ! 1 = of_char c"
  by (simp add: demoPbkdf2_def)

lemma demoPbkdf2_wrong_pin:
  "demoPbkdf2 ''000000'' slt iters 64 dg \<noteq> demoPbkdf2 ''123456'' slt' iters' 64 dg'"
proof
  assume "demoPbkdf2 ''000000'' slt iters 64 dg = demoPbkdf2 ''123456'' slt' iters' 64 dg'"
  then have "demoPbkdf2 ''000000'' slt iters (Suc (Suc 62)) dg ! 1
           = demoPbkdf2 ''123456'' slt' iters' (Suc (Suc 62)) dg' ! 1" by simp
  then show False by (simp only: demoPbkdf2_first_char) simp
qed

lemma demoPinData_eq [simp]: "demoPinData p s = demoPinData p s' \<longleftrightarrow> s = s'"
  by (simp add: demoPinData_def)

lemma demoGcm_roundtrip:
  assumes "demoGcmEncrypt key iv pt = Some (ct, tag)"
  shows "length tag = 16 \<and> demoGcmDecrypt key iv tag ct = Some pt"
proof -
  from assms have k: "length key = 32" and i: "iv \<noteq> []"
    by (simp_all add: demoGcmEncrypt_def split: if_splits)
  from assms k i have ct: "ct = map (\<lambda>b. b + hd key + hd iv) pt"
    and tg: "tag = replicate 16 (hd key + of_nat (length pt))"
    by (simp_all add: demoGcmEncrypt_def)
  have inv: "map (\<lambda>b. b - hd iv - hd key) ct = pt"
    unfolding ct by (induction pt) simp_all
  show ?thesis
    using k i by (simp add: demoGcmDecrypt_def inv) (simp add: ct tg)
qed

lemma demoUtf8_roundtrip: "map (\<lambda>w. char_of (unat w)) (map of_char s :: Buffer) = s"
  by (simp add: o_def char_byte_char)

text \<open>The unfolding that runs \<^verbatim>\<open>verifyPin\<close> and \<^verbatim>\<open>createPinHash\<close> on the demonstration platform.\<close>

lemmas run_defs =
  verifyPin_def validatePinFormat_def decryptPinData_def demoPlatform_def
  JSON_parse_def JSON_stringify_def isValidPinData_def demoPinData_def CONFIG_defs
  loadFromPinData_def createDefaultState_def checkAndUpdateExpiry_def truthy_def isLocked_def
  performVerification_def hashPin_def timingSafeEqual_def
  handleFailedVerification_def handleSuccessfulVerification_def recordFailure_def
  recordSuccess_def calculateLockoutDuration_def ceilSeconds_def
  updateLockoutInPinData_def serialize_def reset_def encryptPinData_def
  setDerivedKey_def clearDerivedKey_def deriveEncryptionKey_def
  createPinHash_def createPinHashSafe_def
  failed_def newPinService_def demoSalt_def demoEncSalt_def Let_def

subsection \<open>Format rejection\<close>

lemma verifyPin_bad_format:
  "\<not> validatePinFormat pin \<Longrightarrow>
   verifyPin P st pin blob now nowLoad =
     (Inr \<lparr>success = False, locked = False, remainingAttempts = 5,
            lockoutSeconds = None, updatedEncryptedData = None\<rparr>, st)"
  by (simp add: verifyPin_def maxAttempts_def)

text \<open>
  C8. However many calls are made and whatever records and clock readings they carry:
  when no entered PIN is six decimal digits, every call returns
  \<^verbatim>\<open>{success: false, locked: false, remainingAttempts: 5}\<close> with neither
  \<^verbatim>\<open>lockoutSeconds\<close> nor an updated record, and the service, its lockout state
  included, is afterwards what it was before the first call.
\<close>

theorem verifyPin_format_rejection_free:
  assumes "\<forall>c \<in> set calls. \<not> validatePinFormat (fst c)"
  shows "verifyPinCalls P st calls =
     (replicate (length calls)
        (Inr \<lparr>success = False, locked = False, remainingAttempts = 5,
               lockoutSeconds = None, updatedEncryptedData = None\<rparr>), st)"
  using assms
proof (induction calls arbitrary: st)
  case Nil
  show ?case by simp
next
  case (Cons c cs)
  obtain pin blob now nowLoad where c: "c = (pin, blob, now, nowLoad)"
    by (cases c) auto
  from Cons.prems c have bad: "\<not> validatePinFormat pin" by simp
  from Cons.prems have others: "\<forall>c \<in> set cs. \<not> validatePinFormat (fst c)" by simp
  show ?case
    by (simp add: c verifyPin_bad_format [OF bad] Cons.IH [OF others])
qed

theorem verifyPin_format_rejection_free_witness:
  "list_all (\<lambda>c. \<not> validatePinFormat (fst c))
     [(''12345'', ''blob'', 1000, 1000), (''12345a'', ''blob'', 2000, 2001),
      (''1234567'', '''', 3000, 3000), ('''', ''blob'', 4000, 4000)] \<and>
   verifyPinCalls (demoPlatform []) (newPinService\<lparr>lockoutManager := failed 3 900\<rparr>)
     [(''12345'', ''blob'', 1000, 1000), (''12345a'', ''blob'', 2000, 2001),
      (''1234567'', '''', 3000, 3000), ('''', ''blob'', 4000, 4000)] =
     ([Inr \<lparr>success = False, locked = False, remainingAttempts = 5,
             lockoutSeconds = None, updatedEncryptedData = None\<rparr>,
       Inr \<lparr>success = False, locked = False, remainingAttempts = 5,
             lockoutSeconds = None, updatedEncryptedData = None\<rparr>,
       Inr \<lparr>success = False, locked = False, remainingAttempts = 5,
             lockoutSeconds = None, updatedEncryptedData = None\<rparr>,
       Inr \<lparr>success = False, locked = False, remainingAttempts = 5,
             lockoutSeconds = None, updatedEncryptedData = None\<rparr>],
      newPinService\<lparr>lockoutManager := failed 3 900\<rparr>)"
proof -
  have h: "\<forall>c \<in> set [(''12345'', ''blob'', 1000, 1000), (''12345a'', ''blob'', 2000, 2001),
                      (''1234567'', '''', 3000, 3000), ('''', ''blob'', 4000::int, 4000::int)].
             \<not> validatePinFormat (fst c)"
    by (simp add: validatePinFormat_def)
  show ?thesis
    using h verifyPin_format_rejection_free
              [OF h, of "demoPlatform []" "newPinService\<lparr>lockoutManager := failed 3 900\<rparr>"]
    by simp
qed

subsection \<open>Unreadable records\<close>

text \<open>
  C7. When the entered PIN is six digits and the record cannot be decrypted or does not
  parse into a structurally valid payload, \<^verbatim>\<open>verifyPin\<close> returns normally with
  \<^verbatim>\<open>{success: false, locked: true, remainingAttempts: 0, lockoutSeconds: 3600}\<close> and no
  updated record, and the lockout manager is left at the maximum lockout: count 5,
  locked until sixty minutes after \<open>now\<close>, lockout count 12.
\<close>

theorem verifyPin_unreadable_record:
  assumes "validatePinFormat pin" and "decryptPinData P blob = Err e"
  shows "verifyPin P st pin blob now nowLoad =
     (Inr \<lparr>success = False, locked = True, remainingAttempts = 0,
            lockoutSeconds = Some 3600, updatedEncryptedData = None\<rparr>,
      st\<lparr>lockoutManager :=
           \<lparr>count = 5, lastAttempt = now, lockedUntil = Some (now + 3600000),
            lockoutCount = 12\<rparr>\<rparr>)"
  using assms by (simp add: verifyPin_def applyMaxLockout_value)

theorem verifyPin_unreadable_record_witness:
  "validatePinFormat ''123456''
   \<and> decryptPinData (demoPlatform []) ''garbage'' = Err ''Failed to decrypt PIN data''
   \<and> verifyPin (demoPlatform []) newPinService ''123456'' ''garbage'' 1000000 1000000 =
     (Inr \<lparr>success = False, locked = True, remainingAttempts = 0,
            lockoutSeconds = Some 3600, updatedEncryptedData = None\<rparr>,
      newPinService\<lparr>lockoutManager :=
           \<lparr>count = 5, lastAttempt = 1000000, lockedUntil = Some 4600000,
            lockoutCount = 12\<rparr>\<rparr>)"
proof -
  have v: "validatePinFormat ''123456''" by (simp add: validatePinFormat_def)
  have d: "decryptPinData (demoPlatform []) ''garbage'' = Err ''Failed to decrypt PIN data''"
    by (simp add: decryptPinData_def demoPlatform_def)
  show ?thesis
    using v d verifyPin_unreadable_record [OF v d, of newPinService 1000000 1000000] by simp
qed

subsection \<open>Readable records\<close>

lemma decryptPinData_of_stringified:
  assumes "blob \<noteq> []" and "isEncryptionAvailable P"
    and "decryptString P (fromBase64 P blob) = Some (JSON_stringify pd)"
    and "hash pd \<noteq> []" and "salt pd \<noteq> []"
  shows "decryptPinData P blob = Ok pd"
  using assms
  by (simp add: decryptPinData_def JSON_parse_def JSON_stringify_def isValidPinData_def)

text \<open>With a well-formed PIN and a readable record, the lockout snapshot decides what happens next.\<close>

lemma verifyPin_readable:
  assumes "validatePinFormat pin" and "decryptPinData P blob = Ok pd"
  shows "verifyPin P st pin blob now nowLoad =
     (let lm = checkAndUpdateExpiry now (loadFromPinData nowLoad (lockout pd))
      in case isLocked now lm of
           Some secs \<Rightarrow>
             (Inr \<lparr>success = False, locked = True, remainingAttempts = 0,
                    lockoutSeconds = Some secs, updatedEncryptedData = None\<rparr>,
              st\<lparr>lockoutManager := lm\<rparr>)
         | None \<Rightarrow> performVerification P (st\<lparr>lockoutManager := lm\<rparr>) pin pd now)"
  using assms by (simp add: verifyPin_def Let_def split: option.splits)

text \<open>
  A lock that is still in the future is honoured, whatever PIN is entered and without any
  hash being computed, as long as the last attempt is no older than the attempt reset
  window.
\<close>

lemma verifyPin_lock_in_force:
  assumes v: "validatePinFormat pin" and dec: "decryptPinData P blob = Ok pd"
    and lo: "lockout pd = Some (lockoutToJson s)"
    and u: "lockedUntil s = Some u" and nz: "u \<noteq> 0"
    and clock: "now \<le> nowLoad" and future: "nowLoad < u"
    and recent: "lastAttempt s = 0 \<or> nowLoad - lastAttempt s \<le> attemptResetMs"
  shows "verifyPin P st pin blob now nowLoad =
     (Inr \<lparr>success = False, locked = True, remainingAttempts = 0,
            lockoutSeconds = Some (ceilSeconds (u - now)), updatedEncryptedData = None\<rparr>,
      st\<lparr>lockoutManager := s\<rparr>)"
proof -
  have l: "loadFromPinData nowLoad (lockout pd) = s"
    using lo u nz future recent by (auto simp: loadFromPinData_def truthy_def)
  have c: "checkAndUpdateExpiry now s = s"
    using u nz clock future recent by (auto simp: checkAndUpdateExpiry_def truthy_def Let_def)
  have i: "isLocked now s = Some (ceilSeconds (u - now))"
    using u nz clock future by (simp add: isLocked_def truthy_def)
  show ?thesis by (simp add: verifyPin_readable [OF v dec] l c i)
qed

subsection \<open>Lockout durations\<close>

lemma calculateLockoutDuration_at_most_one_hour: "calculateLockoutDuration s \<le> 3600000"
  by (simp add: calculateLockoutDuration_def CONFIG_defs Let_def min_def)

text \<open>
  C2. The failed attempt that takes \<open>count\<close> from 4 to the threshold 5 first raises
  \<open>lockoutCount\<close> to \<open>min (lockoutCount + 1) 12\<close> and then locks for
  \<open>baseLockoutMs\<close> times \<open>min (lockoutCount + 1) 12\<close> of the \<^emph>\<open>raised\<close> count: the
  lock set is \<open>now + 300000 * min (lockoutCount_before + 2) 12\<close> and the seconds
  returned are \<open>300 * min (lockoutCount_before + 2) 12\<close>. So the first lockout
  (\<open>lockoutCount\<close> 0 before, 1 after) lasts 600 seconds, not \<open>300 * 1\<close>; the
  lockouts run 10, 15, 20 ... minutes and stay at 60 from the eleventh on.
\<close>

theorem recordFailure_lockout_duration:
  "recordFailure now (s\<lparr>count := 4\<rparr>) =
     (\<lparr>f_locked = True, f_remainingAttempts = 0,
       f_lockoutSeconds = Some (300 * min (lockoutCount s + 2) 12)\<rparr>,
      s\<lparr>count := 5, lastAttempt := now,
        lockoutCount := min (lockoutCount s + 1) 12,
        lockedUntil := Some (now + 300000 * min (lockoutCount s + 2) 12)\<rparr>)
   \<and> recordFailure 1004000 (failed 4 1003000) =
     (\<lparr>f_locked = True, f_remainingAttempts = 0, f_lockoutSeconds = Some 600\<rparr>,
      \<lparr>count = 5, lastAttempt = 1004000, lockedUntil = Some 1604000, lockoutCount = 1\<rparr>)"
proof -
  have m: "min (min (lockoutCount s + 1) 12 + 1) 12 = min (lockoutCount s + 2) (12::int)"
    by simp
  have c: "ceilSeconds (300000 * min (lockoutCount s + 2) 12) = 300 * min (lockoutCount s + 2) 12"
    using ceilSeconds_whole [of "300 * min (lockoutCount s + 2) 12"] by simp
  have general: "recordFailure now (s\<lparr>count := 4\<rparr>) =
     (\<lparr>f_locked = True, f_remainingAttempts = 0,
       f_lockoutSeconds = Some (300 * min (lockoutCount s + 2) 12)\<rparr>,
      s\<lparr>count := 5, lastAttempt := now,
        lockoutCount := min (lockoutCount s + 1) 12,
        lockedUntil := Some (now + 300000 * min (lockoutCount s + 2) 12)\<rparr>)"
    by (simp add: recordFailure_def calculateLockoutDuration_def CONFIG_defs Let_def m c)
  have first: "recordFailure 1004000 (failed 4 1003000) =
     (\<lparr>f_locked = True, f_remainingAttempts = 0, f_lockoutSeconds = Some 600\<rparr>,
      \<lparr>count = 5, lastAttempt = 1004000, lockedUntil = Some 1604000, lockoutCount = 1\<rparr>)"
    by (simp add: recordFailure_def calculateLockoutDuration_def CONFIG_defs Let_def
                  failed_def ceilSeconds_def)
  from general first show ?thesis by (rule conjI)
qed

text \<open>
  C1. \<^verbatim>\<open>createPinHash\<close> on a new service gives a fresh record. Five wrong six-digit
  PINs in a row against it, one second apart, by a caller that stores every updated
  record: the first four answers are \<^verbatim>\<open>locked: false\<close> with \<^verbatim>\<open>remainingAttempts\<close>
  4, 3, 2, 1, and the fifth is \<^verbatim>\<open>locked: true\<close> with \<^verbatim>\<open>remainingAttempts\<close> 0 and
  \<^verbatim>\<open>lockoutSeconds\<close> 600, twice the five-minute base lockout and not about 300.
\<close>

theorem fifth_wrong_attempt_locks_for_600_seconds:
  "createPinHash (demoPlatform bookFive) newPinService ''123456'' (Some demoSalt) (Some demoEncSalt)
     = (Some (demoToBase64 [10]), newPinService)
   \<and> attemptSequence (demoPlatform bookFive) newPinService (demoToBase64 [10])
       [(''000000'', 1000000), (''000000'', 1001000), (''000000'', 1002000),
        (''000000'', 1003000), (''000000'', 1004000)]
     = [Inr \<lparr>success = False, locked = False, remainingAttempts = 4, lockoutSeconds = None,
              updatedEncryptedData = Some (demoToBase64 [11])\<rparr>,
        Inr \<lparr>success = False, locked = False, remainingAttempts = 3, lockoutSeconds = None,
              updatedEncryptedData = Some (demoToBase64 [12])\<rparr>,
        Inr \<lparr>success = False, locked = False, remainingAttempts = 2, lockoutSeconds = None,
              updatedEncryptedData = Some (demoToBase64 [13])\<rparr>,
        Inr \<lparr>success = False, locked = False, remainingAttempts = 1, lockoutSeconds = None,
              updatedEncryptedData = Some (demoToBase64 [14])\<rparr>,
        Inr \<lparr>success = False, locked = True, remainingAttempts = 0, lockoutSeconds = Some 600,
              updatedEncryptedData = Some (demoToBase64 [15])\<rparr>]"
  by (simp add: run_defs bookFive_def demoPbkdf2_wrong_pin [symmetric])

subsection \<open>Loading a lockout snapshot\<close>

text \<open>
  C3. The third lockout in a row, set by \<^verbatim>\<open>recordFailure\<close> at time \<open>1000000\<close>, lasts
  twenty minutes. Fifteen minutes and one millisecond later the lock still has 300
  seconds to run, yet \<^verbatim>\<open>loadFromPinData\<close> answers the zero state: the second branch
  tests only the age of \<open>lastAttempt\<close> and is reached whenever the lock has not yet
  expired, so it clears an active lock together with \<open>lockoutCount\<close>.
\<close>

theorem loadFromPinData_clears_active_lock:
  "recordFailure 1000000
       \<lparr>count = 4, lastAttempt = 999000, lockedUntil = None, lockoutCount = 2\<rparr>
     = (\<lparr>f_locked = True, f_remainingAttempts = 0, f_lockoutSeconds = Some 1200\<rparr>,
        thirdLockout)
   \<and> isLocked 1900001 thirdLockout = Some 300
   \<and> loadFromPinData 1900001 (Some (lockoutToJson thirdLockout)) = createDefaultState"
  by (simp add: recordFailure_def calculateLockoutDuration_def CONFIG_defs Let_def
                thirdLockout_def ceilSeconds_def isLocked_def truthy_def loadFromPinData_def)

text \<open>
  C4. A record whose lockout snapshot is that twenty-minute lock, verified fifteen
  minutes and one millisecond after the failed attempt with the correct PIN: the lock has
  300 seconds left, and \<^verbatim>\<open>verifyPin\<close> compares the hash, answers
  \<^verbatim>\<open>{success: true, locked: false, remainingAttempts: 5}\<close>, resets the lockout state and
  hands back a record with the zero lockout.
\<close>

theorem verifyPin_accepts_pin_during_lockout:
  "decryptPinData (demoPlatform bookLocked) (demoToBase64 [20])
     = Ok (demoPinData ''123456'' thirdLockout)
   \<and> isLocked 1900001 thirdLockout = Some 300
   \<and> verifyPin (demoPlatform bookLocked) newPinService ''123456'' (demoToBase64 [20])
         1900001 1900001 =
     (Inr \<lparr>success = True, locked = False, remainingAttempts = 5, lockoutSeconds = None,
            updatedEncryptedData = Some (demoToBase64 [21])\<rparr>,
      \<lparr>isPinVerified = True,
       derivedEncryptionKey = Some (demoPbkdf2 ''123456'' demoEncSalt 50000 32 SHA256),
       lockoutManager = createDefaultState\<rparr>)
   \<and> decryptPinData (demoPlatform bookLocked) (demoToBase64 [21])
     = Ok (demoPinData ''123456'' createDefaultState)"
  by (simp add: run_defs bookLocked_def thirdLockout_def)

subsection \<open>Creating a PIN\<close>

text \<open>
  C5. \<^verbatim>\<open>createPinHash\<close> takes the lockout for the new record from
  \<^verbatim>\<open>serialize()\<close> and resets the manager only afterwards. After one \<^verbatim>\<open>verifyPin\<close> on
  an unreadable record the manager holds the maximum lockout; a PIN created then is
  written with that lockout (count 5, locked for sixty minutes, lockout count 12), not
  with the zero state.
\<close>

theorem createPinHash_embeds_current_lockout:
  "snd (verifyPin (demoPlatform bookCreate) newPinService ''123456'' ''garbage'' 1000000 1000000)
     = newPinService\<lparr>lockoutManager := maxLockout\<rparr>
   \<and> createPinHash (demoPlatform bookCreate) (newPinService\<lparr>lockoutManager := maxLockout\<rparr>)
        ''123456'' (Some demoSalt) (Some demoEncSalt)
     = (Some (demoToBase64 [30]), newPinService)
   \<and> decryptPinData (demoPlatform bookCreate) (demoToBase64 [30])
     = Ok (demoPinData ''123456'' maxLockout)
   \<and> lockout (demoPinData ''123456'' maxLockout) = Some (lockoutToJson maxLockout)
   \<and> maxLockout \<noteq> createDefaultState"
  by (simp add: run_defs bookCreate_def maxLockout_def applyMaxLockout_def)

text \<open>
  C6. The record created in that state, verified one second later with the very PIN it
  was created for: \<^verbatim>\<open>verifyPin\<close> answers
  \<^verbatim>\<open>{success: false, locked: true, remainingAttempts: 0, lockoutSeconds: 3599}\<close>.
\<close>

theorem createPinHash_then_verifyPin_locked:
  "validatePinFormat ''123456''
   \<and> createPinHash (demoPlatform bookCreate) (newPinService\<lparr>lockoutManager := maxLockout\<rparr>)
        ''123456'' (Some demoSalt) (Some demoEncSalt)
     = (Some (demoToBase64 [30]), newPinService)
   \<and> verifyPin (demoPlatform bookCreate) newPinService ''123456'' (demoToBase64 [30])
         1001000 1001000
     = (Inr \<lparr>success = False, locked = True, remainingAttempts = 0, lockoutSeconds = Some 3599,
              updatedEncryptedData = None\<rparr>,
        newPinService\<lparr>lockoutManager := maxLockout\<rparr>)"
  by (simp add: run_defs bookCreate_def maxLockout_def)

text \<open>
  When the manager holds the zero state at creation, the round trip does succeed, on
  every platform whose key derivation returns the length asked for, whose base64
  decoding inverts its encoding, and whose secret store decrypts what it encrypted.
\<close>

lemma createPinHash_verifyPin_from_zero_state:
  assumes v: "validatePinFormat pin"
    and zero: "lockoutManager st = createDefaultState"
    and created: "createPinHash P st pin (Some slt) (Some es) = (Some blob, st1)"
    and slt: "length slt = salt_length"
    and kdf: "\<And>pw s i n d. length (pbkdf2Sync P pw s i n d) = n"
    and b64: "\<And>b. fromBase64 P (toBase64 P b) = b"
    and b64e: "fromBase64 P [] = []"
    and store: "\<And>t b. encryptString P t = Some b \<Longrightarrow> b \<noteq> [] \<and> decryptString P b = Some t"
  shows "\<exists>upd st3. verifyPin P st2 pin blob now nowLoad =
           (Inr \<lparr>success = True, locked = False, remainingAttempts = 5, lockoutSeconds = None,
                  updatedEncryptedData = upd\<rparr>, st3)"
proof -
  let ?pd = "\<lparr>hash = toBase64 P (hashPin P pin slt), salt = toBase64 P slt,
             encryptionSalt = Some (toBase64 P es),
             lockout = Some (lockoutToJson createDefaultState)\<rparr>"
  have ne: "\<And>b. b \<noteq> [] \<Longrightarrow> toBase64 P b \<noteq> []"
    using b64 b64e by metis
  from created v zero obtain c where avail: "isEncryptionAvailable P"
    and c: "encryptString P (JSON_stringify ?pd) = Some c" and blob: "blob = toBase64 P c"
    by (auto simp: createPinHash_def createPinHashSafe_def encryptPinData_def serialize_def
                   Let_def split: if_splits option.splits PinOperationResult.splits)
  from store [OF c] have cne: "c \<noteq> []" and plain: "decryptString P c = Some (JSON_stringify ?pd)"
    by simp_all
  have "hashPin P pin slt \<noteq> []"
    using kdf [of pin slt hash_iterations hash_keyLength hash_digest]
    by (auto simp: hashPin_def hash_keyLength_def)
  then have hne: "hash ?pd \<noteq> []" by (simp add: ne)
  have "slt \<noteq> []" using slt by (auto simp: salt_length_def)
  then have sne: "salt ?pd \<noteq> []" by (simp add: ne)
  have dec: "decryptPinData P blob = Ok ?pd"
  proof (rule decryptPinData_of_stringified)
    show "blob \<noteq> []" using ne [OF cne] by (simp add: blob)
    show "isEncryptionAvailable P" by (rule avail)
    show "decryptString P (fromBase64 P blob) = Some (JSON_stringify ?pd)"
      by (simp add: blob b64 plain)
    show "hash ?pd \<noteq> []" by (rule hne)
    show "salt ?pd \<noteq> []" by (rule sne)
  qed
  have lm: "checkAndUpdateExpiry now
              (loadFromPinData nowLoad (Some (lockoutToJson createDefaultState)))
            = createDefaultState"
    by (simp add: loadFromPinData_def checkAndUpdateExpiry_def createDefaultState_def truthy_def)
  have nl: "isLocked now createDefaultState = None"
    by (simp add: isLocked_def createDefaultState_def)
  show ?thesis
    by (simp add: verifyPin_readable [OF v dec] lm nl performVerification_def timingSafeEqual_def
                  handleSuccessfulVerification_def b64 Let_def maxAttempts_def)
qed

subsection \<open>The session key\<close>

lemma verifyPin_success_cases:
  assumes run: "verifyPin P st pin blob now nowLoad = (Inr r, st')" and ok: "success r"
    and dec: "decryptPinData P blob = Ok pd"
  shows "(Inr r, st') =
           (case handleSuccessfulVerification P
                   (st\<lparr>lockoutManager :=
                        checkAndUpdateExpiry now (loadFromPinData nowLoad (lockout pd))\<rparr>) pin pd of
              (r1, st1) \<Rightarrow> (Inr r1, st1))"
  using run ok dec
  by (auto simp: verifyPin_def performVerification_def handleFailedVerification_def Let_def
           split: if_splits option.splits sum.splits prod.splits)

text \<open>
  C9, as stated, fails on a record without \<^verbatim>\<open>encryptionSalt\<close>: the correct PIN is
  accepted, the answer is \<^verbatim>\<open>success: true\<close>, and the service still has no key, so
  \<^verbatim>\<open>hasEncryptionKey()\<close> is false and \<^verbatim>\<open>encryptWithVerifiedKey\<close> returns null.
\<close>

theorem verifyPin_success_without_session_key:
  "verifyPin (demoPlatform bookLegacy) newPinService ''123456'' (demoToBase64 [40]) 1000000 1000000
     = (Inr \<lparr>success = True, locked = False, remainingAttempts = 5, lockoutSeconds = None,
              updatedEncryptedData = Some (demoToBase64 [40])\<rparr>,
        newPinService\<lparr>isPinVerified := True\<rparr>)
   \<and> \<not> hasEncryptionKey (newPinService\<lparr>isPinVerified := True\<rparr>)
   \<and> encryptWithVerifiedKey (demoPlatform bookLegacy) (newPinService\<lparr>isPinVerified := True\<rparr>)
         ''secret'' (Some (replicate 16 3)) = None"
  by (simp add: run_defs bookLegacy_def legacyPinData_def hasEncryptionKey_def
                encryptWithVerifiedKey_def)

text \<open>
  C9, amended. When a \<^verbatim>\<open>verifyPin\<close> call ends in a successful match and the record
  carries a non-empty \<^verbatim>\<open>encryptionSalt\<close>, the service afterwards caches, in place of
  any key it held, the key derived from the entered PIN and the decoded
  \<^verbatim>\<open>encryptionSalt\<close> with PBKDF2, 50000 iterations (fewer than the 350000 of the
  verification hash), 32 bytes, SHA-256; \<^verbatim>\<open>hasEncryptionKey()\<close> is true, and
  \<^verbatim>\<open>encryptWithVerifiedKey\<close> and \<^verbatim>\<open>decryptWithVerifiedKey\<close> are encryption and
  decryption with that key.
\<close>

theorem verifyPin_success_caches_session_key:
  assumes run: "verifyPin P st pin blob now nowLoad = (Inr r, st')" and ok: "success r"
    and dec: "decryptPinData P blob = Ok pd"
    and es: "encryptionSalt pd = Some es" and ne: "es \<noteq> []"
  shows "derivedEncryptionKey st' = Some (deriveEncryptionKey P pin (fromBase64 P es))
       \<and> deriveEncryptionKey P pin (fromBase64 P es)
           = pbkdf2Sync P pin (fromBase64 P es) 50000 32 SHA256
       \<and> encryption_iterations < hash_iterations
       \<and> hasEncryptionKey st'
       \<and> encryptWithVerifiedKey P st' data rnd
           = encryptWithKey P data (deriveEncryptionKey P pin (fromBase64 P es)) rnd
       \<and> decryptWithVerifiedKey P st' enc
           = decryptWithKey P enc (deriveEncryptionKey P pin (fromBase64 P es))"
proof -
  have key: "derivedEncryptionKey st' = Some (deriveEncryptionKey P pin (fromBase64 P es))"
    using verifyPin_success_cases [OF run ok dec] es ne
    by (simp add: handleSuccessfulVerification_def setDerivedKey_def clearDerivedKey_def Let_def
             split: option.splits)
  show ?thesis
    by (simp add: key hasEncryptionKey_def encryptWithVerifiedKey_def decryptWithVerifiedKey_def
                  deriveEncryptionKey_def CONFIG_defs)
qed

theorem verifyPin_success_caches_session_key_witness:
  "verifyPin (demoPlatform bookFive) newPinService ''123456'' (demoToBase64 [10]) 1000000 1000000
     = (Inr \<lparr>success = True, locked = False, remainingAttempts = 5, lockoutSeconds = None,
              updatedEncryptedData = Some (demoToBase64 [10])\<rparr>,
        \<lparr>isPinVerified = True,
         derivedEncryptionKey = Some (demoPbkdf2 ''123456'' demoEncSalt 50000 32 SHA256),
         lockoutManager = createDefaultState\<rparr>)
   \<and> decryptPinData (demoPlatform bookFive) (demoToBase64 [10])
     = Ok (demoPinData ''123456'' createDefaultState)
   \<and> encryptionSalt (demoPinData ''123456'' createDefaultState) = Some (demoToBase64 demoEncSalt)
   \<and> demoToBase64 demoEncSalt \<noteq> []
   \<and> hasEncryptionKey
        \<lparr>isPinVerified = True,
         derivedEncryptionKey = Some (demoPbkdf2 ''123456'' demoEncSalt 50000 32 SHA256),
         lockoutManager = createDefaultState\<rparr>
   \<and> encryptWithVerifiedKey (demoPlatform bookFive)
        \<lparr>isPinVerified = True,
         derivedEncryptionKey = Some (demoPbkdf2 ''123456'' demoEncSalt 50000 32 SHA256),
         lockoutManager = createDefaultState\<rparr> ''secret'' (Some (replicate 16 3))
     = encryptWithKey (demoPlatform bookFive) ''secret''
         (demoPbkdf2 ''123456'' demoEncSalt 50000 32 SHA256) (Some (replicate 16 3))"
proof -
  let ?P = "demoPlatform bookFive"
  let ?st = "\<lparr>isPinVerified = True,
         derivedEncryptionKey = Some (demoPbkdf2 ''123456'' demoEncSalt 50000 32 SHA256),
         lockoutManager = createDefaultState\<rparr>"
  let ?r = "\<lparr>success = True, locked = False, remainingAttempts = 5, lockoutSeconds = None,
              updatedEncryptedData = Some (demoToBase64 [10])\<rparr>"
  have run: "verifyPin ?P newPinService ''123456'' (demoToBase64 [10]) 1000000 1000000
               = (Inr ?r, ?st)"
    by (simp add: run_defs bookFive_def)
  have ok: "success ?r" by simp
  have dec: "decryptPinData ?P (demoToBase64 [10]) = Ok (demoPinData ''123456'' createDefaultState)"
    by (simp add: run_defs bookFive_def)
  have es: "encryptionSalt (demoPinData ''123456'' createDefaultState)
              = Some (demoToBase64 demoEncSalt)"
    by (simp add: demoPinData_def)
  have ne: "demoToBase64 demoEncSalt \<noteq> []" by (simp add: demoEncSalt_def)
  show ?thesis
    using run dec es ne
      verifyPin_success_caches_session_key
        [OF run ok dec es ne, of "''secret''" "Some (replicate 16 3)"]
    by (simp add: deriveEncryptionKey_def demoPlatform_def CONFIG_defs)
qed

text \<open>Without a usable \<^verbatim>\<open>encryptionSalt\<close> a successful match leaves the cached key as it was.\<close>

lemma verifyPin_success_without_salt:
  assumes run: "verifyPin P st pin blob now nowLoad = (Inr r, st')" and ok: "success r"
    and dec: "decryptPinData P blob = Ok pd"
    and es: "encryptionSalt pd = None \<or> encryptionSalt pd = Some []"
  shows "derivedEncryptionKey st' = derivedEncryptionKey st"
  using verifyPin_success_cases [OF run ok dec] es
  by (auto simp: handleSuccessfulVerification_def Let_def)

subsection \<open>Stateless encryption\<close>

text \<open>
  C10, as stated, fails on a string that holds a lone surrogate, here \<^verbatim>\<open>'\ud800'\<close>:
  \<^verbatim>\<open>cipher.update(data, 'utf8')\<close> encrypts the bytes of U+FFFD in its place, so
  \<^verbatim>\<open>encryptWithPin\<close> returns a blob and \<^verbatim>\<open>decryptWithPin\<close> of that blob, with the
  same PIN and salt, returns \<^verbatim>\<open>'\ufffd'\<close>, not the original data.
\<close>

theorem encryptWithPin_lone_surrogate_not_restored:
  "encryptWithPin nodeTextPlatform [CHR 0xED, CHR 0xA0, CHR 0x80] ''123456''
       (demoToBase64 demoEncSalt) (Some (replicate 16 3))
     = Some (demoToBase64 (replicate 16 3 @ replicate 16 5 @ [0xF4, 0xC4, 0xC2]))
   \<and> decryptWithPin nodeTextPlatform
        (demoToBase64 (replicate 16 3 @ replicate 16 5 @ [0xF4, 0xC4, 0xC2]))
        ''123456'' (demoToBase64 demoEncSalt)
     = Some [CHR 0xEF, CHR 0xBF, CHR 0xBD]
   \<and> [CHR 0xEF, CHR 0xBF, CHR 0xBD] \<noteq> [CHR 0xED, CHR 0xA0, CHR 0x80]"
proof -
  have enc: "encryptWithPin nodeTextPlatform [CHR 0xED, CHR 0xA0, CHR 0x80] ''123456''
       (demoToBase64 demoEncSalt) (Some (replicate 16 3))
     = Some (demoToBase64 (replicate 16 3 @ replicate 16 5 @ [0xF4, 0xC4, 0xC2]))"
    by (simp add: encryptWithPin_def encryptWithKey_def deriveEncryptionKey_def
                  nodeTextPlatform_def demoPlatform_def
                  demoGcmEncrypt_def demoPbkdf2_def demoEncSalt_def CONFIG_defs Let_def)
  have bytes: "[0xEF, 0xBF, 0xBD] = (map of_char [CHR 0xEF, CHR 0xBF, CHR 0xBD] :: Buffer)"
    by simp
  have chars: "map (\<lambda>w. char_of (unat w)) ([0xEF, 0xBF, 0xBD] :: Buffer)
               = [CHR 0xEF, CHR 0xBF, CHR 0xBD]"
    unfolding bytes by (rule demoUtf8_roundtrip)
  have dec: "decryptWithPin nodeTextPlatform
        (demoToBase64 (replicate 16 3 @ replicate 16 5 @ [0xF4, 0xC4, 0xC2]))
        ''123456'' (demoToBase64 demoEncSalt)
     = Some (map (\<lambda>w. char_of (unat w)) ([0xEF, 0xBF, 0xBD] :: Buffer))"
    by (simp add: decryptWithPin_def decryptWithKey_def deriveEncryptionKey_def subarray_def
                  nodeTextPlatform_def demoPlatform_def
                  demoGcmDecrypt_def demoPbkdf2_def demoEncSalt_def CONFIG_defs Let_def
             del: list.map)
       simp
  show ?thesis using enc dec by (simp only: chars) simp
qed

text \<open>
  C10, amended. For every data string whose UTF-8 bytes decode back to it (every
  well-formed string, one without a lone surrogate), every PIN and every encryption salt:
  when \<^verbatim>\<open>encryptWithPin(data, pin, salt)\<close> returns a blob, with a nonce of the 16 bytes
  \<^verbatim>\<open>randomBytes(16)\<close> gives, then \<^verbatim>\<open>decryptWithPin\<close> of that blob with the same PIN
  and salt returns \<open>data\<close>. The other primitives are taken at their contracts: base64
  decoding inverts encoding, and AES-256-GCM produces a 16-byte tag and decrypts what it
  encrypted under the same key, nonce and tag.
\<close>

theorem encryptWithPin_decryptWithPin:
  assumes enc: "encryptWithPin P data pin encSalt (Some iv) = Some blob"
    and iv: "length iv = encryption_ivLength"
    and b64: "\<And>b. fromBase64 P (toBase64 P b) = b"
    and gcm: "\<And>key pt ct tag. gcmEncrypt P key iv pt = Some (ct, tag) \<Longrightarrow>
                length tag = encryption_authTagLength \<and> gcmDecrypt P key iv tag ct = Some pt"
    and utf8: "utf8Decode P (utf8Encode P data) = data"
  shows "decryptWithPin P blob pin encSalt = Some data"
proof -
  let ?key = "deriveEncryptionKey P pin (fromBase64 P encSalt)"
  from enc obtain ct tag where
    g: "gcmEncrypt P ?key iv (utf8Encode P data) = Some (ct, tag)"
    and blob: "blob = toBase64 P (iv @ tag @ ct)"
    by (auto simp: encryptWithPin_def encryptWithKey_def Let_def split: option.splits)
  from gcm [OF g] have tl: "length tag = encryption_authTagLength"
    and d: "gcmDecrypt P ?key iv tag ct = Some (utf8Encode P data)" by simp_all
  have p1: "subarray 0 encryption_ivLength (iv @ tag @ ct) = iv"
    using iv by (simp add: subarray_def)
  have p2: "subarray encryption_ivLength (encryption_ivLength + encryption_authTagLength)
              (iv @ tag @ ct) = tag"
    using iv tl by (simp add: subarray_def)
  have p3: "drop (encryption_ivLength + encryption_authTagLength) (iv @ tag @ ct) = ct"
    using iv tl by simp
  have "decryptWithKey P blob ?key = Some data"
    unfolding decryptWithKey_def Let_def blob b64 p1 p2 p3 d by (simp add: utf8)
  then show ?thesis by (simp add: decryptWithPin_def Let_def)
qed

theorem encryptWithPin_decryptWithPin_witness:
  "encryptWithPin (demoPlatform []) ''hello'' ''123456'' (demoToBase64 demoEncSalt)
       (Some (replicate 16 3))
     = Some (demoToBase64 (replicate 16 3 @ replicate 16 7 @ [109, 106, 113, 113, 116]))
   \<and> decryptWithPin (demoPlatform [])
        (demoToBase64 (replicate 16 3 @ replicate 16 7 @ [109, 106, 113, 113, 116]))
        ''123456'' (demoToBase64 demoEncSalt)
     = Some ''hello''"
proof -
  let ?P = "demoPlatform []"
  let ?blob = "demoToBase64 (replicate 16 3 @ replicate 16 7 @ [109, 106, 113, 113, 116])"
  have enc: "encryptWithPin ?P ''hello'' ''123456'' (demoToBase64 demoEncSalt)
               (Some (replicate 16 3)) = Some ?blob"
    by (simp add: encryptWithPin_def encryptWithKey_def deriveEncryptionKey_def demoPlatform_def
                  demoGcmEncrypt_def demoPbkdf2_def demoEncSalt_def CONFIG_defs Let_def)
  have iv: "length (replicate 16 (3 :: 8 word)) = encryption_ivLength"
    by (simp add: encryption_ivLength_def)
  have b64: "\<And>b. fromBase64 ?P (toBase64 ?P b) = b" by (simp add: demoPlatform_def)
  have gcm: "\<And>key pt ct tag. gcmEncrypt ?P key (replicate 16 3) pt = Some (ct, tag) \<Longrightarrow>
                length tag = encryption_authTagLength
                \<and> gcmDecrypt ?P key (replicate 16 3) tag ct = Some pt"
    using demoGcm_roundtrip by (simp add: demoPlatform_def encryption_authTagLength_def)
  have utf8: "utf8Decode ?P (utf8Encode ?P ''hello'') = ''hello''"
    by (simp add: demoPlatform_def del: map_map list.map) (rule demoUtf8_roundtrip)
  show ?thesis using enc encryptWithPin_decryptWithPin [OF enc iv b64 gcm utf8] by simp
qed

end
